theory Spec2Isabelle
  imports Complex_Main
begin

section \<open>Python values\<close>

text \<open>
  A Python \<open>str\<close> is a sequence of Unicode code points, so \<open>len\<close> is \<open>length\<close>.
  Literals of the source are written with \<open>str_lit\<close>.
\<close>

type_synonym pystr = "nat list"

definition str_lit :: "string \<Rightarrow> pystr" where
  "str_lit s = map of_char s"

text \<open>
  A Python \<open>float\<close> is the real number it denotes, or one of the three special values.
  The float literals of the source denote the binary64 number nearest to the decimal:
  \<open>0.1\<close> is \<open>3602879701896397 / 2^55\<close>, \<open>0.9\<close> is \<open>8106479329266893 / 2^53\<close> and
  \<open>0.000000001\<close> is \<open>4835703278458517 / 2^82\<close>.
\<close>

datatype pyfloat = Finite real | PosInf | NegInf | NaN

definition float_0_1 :: real where
  "float_0_1 = 3602879701896397 / 2 ^ 55"

definition float_0_9 :: real where
  "float_0_9 = 8106479329266893 / 2 ^ 53"

text \<open>\<open>min_n = 0.000000001\<close> (webui_utils.py, line 244).\<close>

definition min_n :: real where
  "min_n = 4835703278458517 / 2 ^ 82"

text \<open>
  The values the entry points receive from the UI and find in a style preset. \<open>PObj\<close> is
  any other object (a speaker); \<open>'s\<close> is the type of speakers.
\<close>

datatype 's pyval = PNone | PBool bool | PInt int | PFloat pyfloat | PStr pystr | PObj 's

text \<open>
  Truth value testing: \<open>None\<close>, \<open>False\<close>, zero of a numeric type and the empty string
  are false, everything else is true (a speaker object defines neither \<open>__bool__\<close>
  nor \<open>__len__\<close>). \<open>-1\<close>, infinities and NaN are true.
\<close>

fun truthy :: "'s pyval \<Rightarrow> bool" where
  "truthy PNone = False"
| "truthy (PBool b) = b"
| "truthy (PInt i) = (i \<noteq> 0)"
| "truthy (PFloat f) = (f \<noteq> Finite 0)"
| "truthy (PStr s) = (s \<noteq> [])"
| "truthy (PObj x) = True"

text \<open>\<open>a or b\<close>: \<open>a\<close> when it is true, otherwise \<open>b\<close>.\<close>

definition py_or :: "'s pyval \<Rightarrow> 's pyval \<Rightarrow> 's pyval" where
  "py_or a b = (if truthy a then a else b)"

text \<open>A \<open>dict\<close> with string keys, and \<open>d.get(k, default)\<close>.\<close>

type_synonym 's pydict = "string \<rightharpoonup> 's pyval"

definition dict_get :: "'s pydict \<Rightarrow> string \<Rightarrow> 's pyval \<Rightarrow> 's pyval" where
  "dict_get d k dflt = (case d k of None \<Rightarrow> dflt | Some v \<Rightarrow> v)"

text \<open>
  Exceptions. \<open>GrError\<close> is \<open>gr.Error\<close> with its message, the error the web UI
  shows for a request it refuses.
\<close>

datatype error = GrError string | TypeError | ValueError | OverflowError

section \<open>Strings\<close>

text \<open>The code points for which \<open>str.isspace\<close> holds.\<close>

definition is_space :: "nat \<Rightarrow> bool" where
  "is_space c \<longleftrightarrow>
     (9 \<le> c \<and> c \<le> 13) \<or> (28 \<le> c \<and> c \<le> 32) \<or> c = 133 \<or> c = 160 \<or> c = 5760 \<or>
     (8192 \<le> c \<and> c \<le> 8202) \<or> c = 8232 \<or> c = 8233 \<or> c = 8239 \<or> c = 8287 \<or> c = 12288"

text \<open>\<open>s.strip()\<close>: leading and trailing whitespace removed.\<close>

definition strip :: "pystr \<Rightarrow> pystr" where
  "strip s = rev (dropWhile is_space (rev (dropWhile is_space s)))"

text \<open>
  \<open>s[0:n]\<close>: the first \<open>n\<close> code points; a negative \<open>n\<close> counts from the end, so
  \<open>s[0:-2]\<close> drops the last two.
\<close>

definition slice_to :: "pystr \<Rightarrow> int \<Rightarrow> pystr" where
  "slice_to s n = (if 0 \<le> n then take (nat n) s else take (nat (int (length s) + n)) s)"

text \<open>\<open>str(i)\<close> for an \<open>int\<close>, as an f-string formats it: decimal digits, a minus sign first.\<close>

fun str_of_nat :: "nat \<Rightarrow> pystr" where
  "str_of_nat n = (if n < 10 then [48 + n] else str_of_nat (n div 10) @ [48 + n mod 10])"

definition str_of_int :: "int \<Rightarrow> pystr" where
  "str_of_int i = (if i < 0 then 45 # str_of_nat (nat (- i)) else str_of_nat (nat i))"

section \<open>The encoders (core/handler/encoder/encoders.py)\<close>

text \<open>
  Each encoder's \<open>open(acodec, bitrate)\<close> replaces a false \<open>acodec\<close> and calls
  \<open>StreamEncoder.open(format, acodec, bitrate)\<close>; the model returns the three arguments
  of that call. The codec is \<open>None\<close> or a string; a call that leaves an argument out
  passes the default of the signature.
\<close>

definition codec_or :: "string option \<Rightarrow> string \<Rightarrow> string" where
  "codec_or acodec dflt = (case acodec of None \<Rightarrow> dflt | Some c \<Rightarrow> if c = [] then dflt else c)"

definition Mp3Encoder_open :: "string option \<Rightarrow> string \<Rightarrow> string \<times> string \<times> string" where
  "Mp3Encoder_open acodec bitrate = (''mp3'', codec_or acodec ''libmp3lame'', bitrate)"

definition WavEncoder_open :: "string option \<Rightarrow> string \<Rightarrow> string \<times> string \<times> string" where
  "WavEncoder_open acodec bitrate = (''wav'', codec_or acodec ''pcm_s16le'', bitrate)"

definition OggEncoder_open :: "string option \<Rightarrow> string \<Rightarrow> string \<times> string \<times> string" where
  "OggEncoder_open acodec bitrate = (''ogg'', codec_or acodec ''libvorbis'', bitrate)"

definition FlacEncoder_open :: "string option \<Rightarrow> string \<Rightarrow> string \<times> string \<times> string" where
  "FlacEncoder_open acodec bitrate = (''flac'', codec_or acodec ''flac'', bitrate)"

definition AacEncoder_open :: "string option \<Rightarrow> string \<Rightarrow> string \<times> string \<times> string" where
  "AacEncoder_open acodec bitrate = (''aac'', codec_or acodec ''acc'', bitrate)"

text \<open>The defaults of the signatures: \<open>bitrate: str = "128k"\<close>, and the codec of each class.\<close>

definition default_bitrate :: string where
  "default_bitrate = ''128k''"

definition AacEncoder_default_acodec :: "string option" where
  "AacEncoder_default_acodec = Some ''aac''"

section \<open>Length limit of SSML segments (webui_utils.py, lines 89-102)\<close>

text \<open>
  A parsed segment is an \<open>SSMLBreak\<close> or an \<open>SSMLSegment\<close> with its \<open>text\<close>; \<open>'b\<close> and
  \<open>'p\<close> are what else the two carry.
\<close>

datatype ('b, 'p) segment = SSMLBreak 'b | SSMLSegment pystr 'p

text \<open>
  The loop, with its two variables \<open>total_len\<close> and \<open>ret_segments\<close>: a break is appended,
  a text segment adds its length first and ends the loop when the sum is over \<open>total_max\<close>.
\<close>

fun limit_loop ::
  "('b, 'p) segment list \<Rightarrow> int \<Rightarrow> int \<Rightarrow> ('b, 'p) segment list \<Rightarrow> ('b, 'p) segment list" where
  "limit_loop [] total_max total_len ret_segments = ret_segments"
| "limit_loop (SSMLBreak b # segs) total_max total_len ret_segments =
     limit_loop segs total_max total_len (ret_segments @ [SSMLBreak b])"
| "limit_loop (SSMLSegment t p # segs) total_max total_len ret_segments =
     (if total_len + int (length t) > total_max then ret_segments
      else limit_loop segs total_max (total_len + int (length t)) (ret_segments @ [SSMLSegment t p]))"

definition segments_length_limit ::
  "('b, 'p) segment list \<Rightarrow> int \<Rightarrow> ('b, 'p) segment list" where
  "segments_length_limit segments total_max = limit_loop segments total_max 0 []"

text \<open>What the claims speak of: the text length of a sequence, and the over-budget segment.\<close>

fun is_text :: "('b, 'p) segment \<Rightarrow> bool" where
  "is_text (SSMLBreak b) = False"
| "is_text (SSMLSegment t p) = True"

fun text_len :: "('b, 'p) segment list \<Rightarrow> int" where
  "text_len [] = 0"
| "text_len (SSMLBreak b # segs) = text_len segs"
| "text_len (SSMLSegment t p # segs) = int (length t) + text_len segs"

definition over_budget :: "('b, 'p) segment list \<Rightarrow> int \<Rightarrow> nat \<Rightarrow> bool" where
  "over_budget segs total_max k \<longleftrightarrow>
     k < length segs \<and> is_text (segs ! k) \<and> text_len (take (Suc k) segs) > total_max"

section \<open>Numbers\<close>

text \<open>\<open>int(x)\<close> for a float truncates towards zero and raises on the special values.\<close>

definition py_trunc :: "real \<Rightarrow> int" where
  "py_trunc r = (if 0 \<le> r then \<lfloor>r\<rfloor> else \<lceil>r\<rceil>)"

fun int_of_float :: "pyfloat \<Rightarrow> error + int" where
  "int_of_float (Finite r) = Inr (py_trunc r)"
| "int_of_float PosInf = Inl OverflowError"
| "int_of_float NegInf = Inl OverflowError"
| "int_of_float NaN = Inl ValueError"

text \<open>
  \<open>int(x)\<close> for any value; \<open>parse\<close> is Python's reading of an integer from a string
  (\<open>None\<close> where it raises \<open>ValueError\<close>).
\<close>

fun py_int :: "(pystr \<Rightarrow> int option) \<Rightarrow> 's pyval \<Rightarrow> error + int" where
  "py_int parse (PInt i) = Inr i"
| "py_int parse (PBool b) = Inr (if b then 1 else 0)"
| "py_int parse (PFloat f) = int_of_float f"
| "py_int parse (PStr s) = (case parse s of None \<Rightarrow> Inl ValueError | Some i \<Rightarrow> Inr i)"
| "py_int parse PNone = Inl TypeError"
| "py_int parse (PObj x) = Inl TypeError"

text \<open>
  \<open>np.clip(a, a_min, a_max, out=None, dtype=np.float64)\<close> makes an array of \<open>a\<close> and
  computes \<open>minimum(a_max, maximum(a, a_min))\<close> in float64. An \<open>int\<close> becomes an int64
  or uint64 array when it lies in \<open>[-2^63, 2^64)\<close>, which \<open>np_int\<close> says; an \<open>int\<close>
  outside, like \<open>None\<close>, a string or any other object, becomes an array of objects,
  which cannot be cast to float64: the call raises \<open>UFuncTypeError\<close>, a \<open>TypeError\<close>.
  NaN stays NaN. The conversion of a 64-bit integer to float64 is monotone and exact
  between the two bounds used here, so clipping the converted value is clipping the
  integer.
\<close>

definition np_int :: "int \<Rightarrow> bool" where
  "np_int i \<longleftrightarrow> - (2 ^ 63) \<le> i \<and> i < 2 ^ 64"

fun np_clip :: "'s pyval \<Rightarrow> real \<Rightarrow> real \<Rightarrow> error + pyfloat" where
  "np_clip (PInt i) a_min a_max =
     (if np_int i then Inr (Finite (min a_max (max (of_int i) a_min))) else Inl TypeError)"
| "np_clip (PBool b) a_min a_max = Inr (Finite (min a_max (max (if b then 1 else 0) a_min)))"
| "np_clip (PFloat (Finite r)) a_min a_max = Inr (Finite (min a_max (max r a_min)))"
| "np_clip (PFloat PosInf) a_min a_max = Inr (Finite a_max)"
| "np_clip (PFloat NegInf) a_min a_max = Inr (Finite (min a_max a_min))"
| "np_clip (PFloat NaN) a_min a_max = Inr NaN"
| "np_clip PNone a_min a_max = Inl TypeError"
| "np_clip (PStr s) a_min a_max = Inl TypeError"
| "np_clip (PObj x) a_min a_max = Inl TypeError"

text \<open>\<open>v == x\<close> for a float literal \<open>x\<close>: numbers compare by value, nothing else is equal.\<close>

fun py_eq_float :: "'s pyval \<Rightarrow> real \<Rightarrow> bool" where
  "py_eq_float (PInt i) x = (of_int i = x)"
| "py_eq_float (PBool b) x = ((if b then 1 else 0) = x)"
| "py_eq_float (PFloat (Finite r)) x = (r = x)"
| "py_eq_float (PFloat PosInf) x = False"
| "py_eq_float (PFloat NegInf) x = False"
| "py_eq_float (PFloat NaN) x = False"
| "py_eq_float PNone x = False"
| "py_eq_float (PStr s) x = False"
| "py_eq_float (PObj y) x = False"

section \<open>The configuration records and the handlers\<close>

text \<open>
  The records the two entry points build, with the fields they set. \<open>infer_seed\<close> is
  \<open>None\<close> where the constructor call leaves the seed out.
\<close>

record 's TTSConfig =
  tts_mid :: pystr
  tts_style :: pystr
  tts_temperature :: "'s pyval"
  tts_top_k :: "'s pyval"
  tts_top_p :: "'s pyval"
  tts_prompt :: "'s pyval"
  tts_prefix :: "'s pyval"
  tts_prompt1 :: "'s pyval"
  tts_prompt2 :: "'s pyval"

record InferConfig =
  infer_batch_size :: int
  infer_spliter_threshold :: int
  infer_eos :: pystr
  infer_seed :: "int option"
  infer_sync_gen :: bool

record 's AdjustConfig =
  adj_pitch :: "'s pyval"
  adj_speed_rate :: "'s pyval"
  adj_volume_gain_db :: "'s pyval"
  adj_normalize :: bool
  adj_headroom :: "'s pyval"

record EnhancerConfig =
  enh_enabled :: bool
  enh_lambd :: real

datatype AudioFormat = mp3 | wav | ogg | flac | aac

record EncoderConfig =
  enc_format :: AudioFormat
  enc_bitrate :: string

text \<open>
  \<open>TTSHandler(...)\<close> and \<open>SSMLHandler(...)\<close> as the entry points construct them. The
  models below return the handler; \<open>handler.enqueue()\<close>, which runs the synthesis, is
  the next statement of the source and is the first call into the pipeline.
\<close>

record 's TTSHandler =
  text_content :: pystr
  spk :: "'s pyval"
  tts_config :: "'s TTSConfig"
  infer_config :: InferConfig
  adjust_config :: "'s AdjustConfig"
  enhancer_config :: EnhancerConfig
  encoder_config :: EncoderConfig
  vc_enabled :: bool

record 's SSMLHandler =
  ssml_content :: pystr
  ssml_tts_mid :: pystr
  ssml_infer_config :: InferConfig
  ssml_adjust_config :: "'s AdjustConfig"
  ssml_enhancer_config :: EnhancerConfig
  ssml_encoder_config :: EncoderConfig

section \<open>What the entry points call outside this file\<close>

text \<open>
  The constants of \<open>webui_config\<close> and the functions of other modules that
  \<open>tts_generate\<close> and \<open>load_spk_info\<close> call, as parameters: \<open>'s\<close> speakers, \<open>'f\<close>
  speaker files, \<open>'a\<close> the reference audio (sample rate and samples), \<open>'w\<close> wav bytes.
  \<open>from_file\<close> is \<open>TTSSpeaker.from_file\<close>: \<open>Inl msg\<close> when it raises an exception
  that prints as \<open>msg\<close>. The other functions are called outside any \<open>try\<close> and are
  taken to return.
\<close>

record ('s, 'f, 'a, 'w) env =
  tts_max :: int
  calc_spk_style :: "'s pyval \<Rightarrow> pystr \<Rightarrow> 's pydict"
  create_speaker_from_seed :: "int \<Rightarrow> 's"
  from_file :: "'f \<Rightarrow> pystr + 's"
  encode_to_wav :: "'a \<Rightarrow> 'w"
  from_ref_wav_bytes :: "'w \<Rightarrow> pystr \<Rightarrow> 's"
  int_of_str :: "pystr \<Rightarrow> int option"
  spk_name :: "'s \<Rightarrow> pystr"
  spk_gender :: "'s \<Rightarrow> pystr"
  spk_desc :: "'s \<Rightarrow> pystr"

section \<open>load_spk_info (webui_utils.py, lines 73-86)\<close>

text \<open>
  The function returns a string and writes to the logger; the model takes the log (the
  messages of \<open>logger.error\<close> so far) and returns the string with the new log. The
  body of the \<open>try\<close> is \<open>load_spk_info_try\<close>, and \<open>except Exception\<close> catches what it
  raises.
\<close>

definition load_spk_info_try :: "('s, 'f, 'a, 'w) env \<Rightarrow> 'f \<Rightarrow> pystr + pystr" where
  "load_spk_info_try env file =
     (case from_file env file of
        Inl e \<Rightarrow> Inl e
      | Inr s \<Rightarrow>
          Inr (strip ([10] @ str_lit ''- name: '' @ spk_name env s @ [10]
                 @ str_lit ''- gender: '' @ spk_gender env s @ [10]
                 @ str_lit ''- describe: '' @ spk_desc env s @ [10] @ str_lit ''    '')))"

definition load_spk_info ::
  "('s, 'f, 'a, 'w) env \<Rightarrow> 'f option \<Rightarrow> pystr list \<Rightarrow> pystr \<times> pystr list" where
  "load_spk_info env file logged =
     (case file of
        None \<Rightarrow> (str_lit ''empty'', logged)
      | Some f \<Rightarrow>
          (case load_spk_info_try env f of
             Inr info \<Rightarrow> (info, logged)
           | Inl e \<Rightarrow> (str_lit ''load failed'', logged @ [str_lit ''load spk info failed: '' @ e])))"

section \<open>tts_generate (webui_utils.py, lines 184-322)\<close>

text \<open>
  The arguments, with the types the signature gives them. The values that the function
  tests for truth or hands on untouched are \<open>pyval\<close>; the two flags are booleans (the
  check boxes of the UI); \<open>spk_file\<close> is \<open>None\<close> or a file, and a file is true.
\<close>

record ('s, 'f, 'a) tts_args =
  arg_text :: pystr
  arg_temperature :: "'s pyval"
  arg_top_p :: "'s pyval"
  arg_top_k :: "'s pyval"
  arg_spk :: "'s pyval"
  arg_infer_seed :: "'s pyval"
  arg_use_decoder :: bool
  arg_prompt1 :: "'s pyval"
  arg_prompt2 :: "'s pyval"
  arg_prefix :: "'s pyval"
  arg_style :: pystr
  arg_disable_normalize :: bool
  arg_batch_size :: "'s pyval"
  arg_enable_enhance :: bool
  arg_enable_denoise :: bool
  arg_spk_file :: "'f option"
  arg_spliter_thr :: int
  arg_eos :: pystr
  arg_pitch :: "'s pyval"
  arg_speed_rate :: "'s pyval"
  arg_volume_gain_db :: "'s pyval"
  arg_normalize :: bool
  arg_headroom :: "'s pyval"
  arg_ref_audio :: "'a option"
  arg_ref_audio_text :: "pystr option"
  arg_model_id :: pystr

text \<open>Lines 227-228: \<open>if isinstance(top_k, float): top_k = int(top_k)\<close>.\<close>

fun top_k_int :: "'s pyval \<Rightarrow> error + 's pyval" where
  "top_k_int (PFloat f) = (case int_of_float f of Inl e \<Rightarrow> Inl e | Inr i \<Rightarrow> Inr (PInt i))"
| "top_k_int v = Inr v"

text \<open>Lines 240-241: \<open>np.clip(infer_seed, -1, 2**32 - 1, out=None, dtype=np.float64)\<close>, then \<open>int\<close>.\<close>

definition clip_seed :: "'s pyval \<Rightarrow> error + int" where
  "clip_seed v =
     (case np_clip v (- 1) (2 ^ 32 - 1) of Inl e \<Rightarrow> Inl e | Inr f \<Rightarrow> int_of_float f)"

text \<open>
  Lines 248-249: \<open>if isinstance(spk, int): spk = create_speaker_from_seed(spk)\<close>; a
  \<open>bool\<close> is an \<open>int\<close>.
\<close>

fun speaker_from_seed :: "('s, 'f, 'a, 'w) env \<Rightarrow> 's pyval \<Rightarrow> 's pyval" where
  "speaker_from_seed env (PInt i) = PObj (create_speaker_from_seed env i)"
| "speaker_from_seed env (PBool b) = PObj (create_speaker_from_seed env (if b then 1 else 0))"
| "speaker_from_seed env v = v"

text \<open>Lines 251-255: the speaker file, when there is one, replaces the speaker or fails.\<close>

definition load_spk_file ::
  "('s, 'f, 'a, 'w) env \<Rightarrow> 'f option \<Rightarrow> 's pyval \<Rightarrow> error + 's pyval" where
  "load_spk_file env spk_file s =
     (case spk_file of
        None \<Rightarrow> Inr s
      | Some f \<Rightarrow>
          (case from_file env f of
             Inl e \<Rightarrow> Inl (GrError ''Failed to load speaker file'')
           | Inr s' \<Rightarrow> Inr (PObj s')))"

text \<open>Lines 257-264: the reference audio, when there is one, needs its transcript.\<close>

definition ref_audio_spk ::
  "('s, 'f, 'a, 'w) env \<Rightarrow> 'a option \<Rightarrow> pystr option \<Rightarrow> 's pyval \<Rightarrow> error + 's pyval" where
  "ref_audio_spk env ref_audio ref_audio_text s =
     (case ref_audio of
        None \<Rightarrow> Inr s
      | Some audio \<Rightarrow>
          (case ref_audio_text of
             None \<Rightarrow> Inl (GrError ''ref_audio_text is empty'')
           | Some t \<Rightarrow>
               if strip t = [] then Inl (GrError ''ref_audio_text is empty'')
               else Inr (PObj (from_ref_wav_bytes env (encode_to_wav env audio) t))))"

text \<open>
  The values the function computes without a call that can fail, each named after the
  variable of the source: the batch size (lines 213-216, where the \<open>try\<close> replaces a
  failure of \<open>int\<close> by 4), the text (lines 218-219), the style (lines 224-225), the
  preset (line 230), the coalesced parameters (lines 233-238) and the temperature after
  its special case (lines 243-246).
\<close>

definition tts_batch_size :: "('s, 'f, 'a, 'w) env \<Rightarrow> ('s, 'f, 'a) tts_args \<Rightarrow> int" where
  "tts_batch_size env a =
     (case py_int (int_of_str env) (arg_batch_size a) of Inl e \<Rightarrow> 4 | Inr n \<Rightarrow> n)"

definition tts_text :: "('s, 'f, 'a, 'w) env \<Rightarrow> ('s, 'f, 'a) tts_args \<Rightarrow> pystr" where
  "tts_text env a = slice_to (strip (arg_text a)) (tts_max env)"

definition tts_style_of :: "('s, 'f, 'a) tts_args \<Rightarrow> pystr" where
  "tts_style_of a = (if arg_style a = str_lit ''*auto'' then [] else arg_style a)"

definition style_preset :: "('s, 'f, 'a, 'w) env \<Rightarrow> ('s, 'f, 'a) tts_args \<Rightarrow> 's pydict" where
  "style_preset env a = calc_spk_style env (arg_spk a) (tts_style_of a)"

definition eff_spk :: "('s, 'f, 'a, 'w) env \<Rightarrow> ('s, 'f, 'a) tts_args \<Rightarrow> 's pyval" where
  "eff_spk env a = dict_get (style_preset env a) ''spk'' (arg_spk a)"

definition eff_infer_seed :: "('s, 'f, 'a, 'w) env \<Rightarrow> ('s, 'f, 'a) tts_args \<Rightarrow> 's pyval" where
  "eff_infer_seed env a =
     py_or (arg_infer_seed a) (dict_get (style_preset env a) ''seed'' (arg_infer_seed a))"

definition eff_temperature :: "('s, 'f, 'a, 'w) env \<Rightarrow> ('s, 'f, 'a) tts_args \<Rightarrow> 's pyval" where
  "eff_temperature env a =
     py_or (arg_temperature a) (dict_get (style_preset env a) ''temperature'' (arg_temperature a))"

definition eff_prefix :: "('s, 'f, 'a, 'w) env \<Rightarrow> ('s, 'f, 'a) tts_args \<Rightarrow> 's pyval" where
  "eff_prefix env a = py_or (arg_prefix a) (dict_get (style_preset env a) ''prefix'' (PStr []))"

definition eff_prompt :: "('s, 'f, 'a, 'w) env \<Rightarrow> ('s, 'f, 'a) tts_args \<Rightarrow> 's pyval" where
  "eff_prompt env a = dict_get (style_preset env a) ''prompt'' (PStr [])"

definition eff_prompt1 :: "('s, 'f, 'a, 'w) env \<Rightarrow> ('s, 'f, 'a) tts_args \<Rightarrow> 's pyval" where
  "eff_prompt1 env a = py_or (arg_prompt1 a) (dict_get (style_preset env a) ''prompt1'' (PStr []))"

definition eff_prompt2 :: "('s, 'f, 'a, 'w) env \<Rightarrow> ('s, 'f, 'a) tts_args \<Rightarrow> 's pyval" where
  "eff_prompt2 env a = py_or (arg_prompt2 a) (dict_get (style_preset env a) ''prompt2'' (PStr []))"

definition final_temperature :: "'s pyval \<Rightarrow> 's pyval" where
  "final_temperature temperature =
     (if py_eq_float temperature float_0_1 then PFloat (Finite min_n) else temperature)"

text \<open>
  Lines 266-313: the five configuration records and the handler, from the values above
  and the three that come out of a call that can fail (\<open>top_k\<close>, the clipped seed and
  the speaker).
\<close>

definition tts_handler ::
  "('s, 'f, 'a, 'w) env \<Rightarrow> ('s, 'f, 'a) tts_args \<Rightarrow> 's pyval \<Rightarrow> int \<Rightarrow> 's pyval \<Rightarrow> 's TTSHandler" where
  "tts_handler env a top_k seed speaker =
     \<lparr>text_content = tts_text env a,
      spk = speaker,
      tts_config =
        \<lparr>tts_mid = arg_model_id a, tts_style = tts_style_of a,
         tts_temperature = final_temperature (eff_temperature env a), tts_top_k = top_k,
         tts_top_p = arg_top_p a, tts_prompt = eff_prompt env a,
         tts_prefix = eff_prefix env a, tts_prompt1 = eff_prompt1 env a,
         tts_prompt2 = eff_prompt2 env a\<rparr>,
      infer_config =
        \<lparr>infer_batch_size = tts_batch_size env a,
         infer_spliter_threshold = arg_spliter_thr a,
         infer_eos = arg_eos a, infer_seed = Some seed, infer_sync_gen = True\<rparr>,
      adjust_config =
        \<lparr>adj_pitch = arg_pitch a, adj_speed_rate = arg_speed_rate a,
         adj_volume_gain_db = arg_volume_gain_db a, adj_normalize = arg_normalize a,
         adj_headroom = arg_headroom a\<rparr>,
      enhancer_config =
        \<lparr>enh_enabled = (arg_enable_denoise a \<or> arg_enable_enhance a \<or> False),
         enh_lambd = (if arg_enable_denoise a then float_0_9 else float_0_1)\<rparr>,
      encoder_config = \<lparr>enc_format = mp3, enc_bitrate = ''64k''\<rparr>,
      vc_enabled = False\<rparr>"

text \<open>
  The function: its checks and its calls that can fail, in the order of the source, each
  \<open>raise\<close> an \<open>Inl\<close>. What lies between them is the pure values above, which have no
  effect and so may be read off where they are used.
\<close>

definition tts_generate ::
  "('s, 'f, 'a, 'w) env \<Rightarrow> ('s, 'f, 'a) tts_args \<Rightarrow> error + 's TTSHandler" where
  "tts_generate env a =
     (if tts_text env a = [] then Inl (GrError ''Text is empty, please input some text'')
      else
        case top_k_int (arg_top_k a) of
          Inl e \<Rightarrow> Inl e
        | Inr top_k \<Rightarrow>
            (case clip_seed (eff_infer_seed env a) of
               Inl e \<Rightarrow> Inl e
             | Inr seed \<Rightarrow>
                 (case load_spk_file env (arg_spk_file a) (speaker_from_seed env (eff_spk env a)) of
                    Inl e \<Rightarrow> Inl e
                  | Inr spk2 \<Rightarrow>
                      (case ref_audio_spk env (arg_ref_audio a) (arg_ref_audio_text a) spk2 of
                         Inl e \<Rightarrow> Inl e
                       | Inr spk3 \<Rightarrow> Inr (tts_handler env a top_k seed spk3)))))"

section \<open>synthesize_ssml (webui_utils.py, lines 107-179)\<close>

record 's ssml_args =
  sarg_ssml :: pystr
  sarg_batch_size :: "'s pyval"
  sarg_enable_enhance :: bool
  sarg_enable_denoise :: bool
  sarg_eos :: pystr
  sarg_spliter_thr :: int
  sarg_pitch :: "'s pyval"
  sarg_speed_rate :: "'s pyval"
  sarg_volume_gain_db :: "'s pyval"
  sarg_normalize :: bool
  sarg_headroom :: "'s pyval"

text \<open>
  \<open>parse\<close> is the \<open>parse\<close> of the SSML parser (\<open>Inl\<close> where it raises), \<open>ssml_max\<close>
  is \<open>webui_config.ssml_max\<close> and \<open>parse_int\<close> reads an integer from a string. The
  batch size is lines 121-124 (a failure of \<open>int\<close> gives 8), the handler with its
  records is lines 139-172.
\<close>

definition ssml_batch_size :: "(pystr \<Rightarrow> int option) \<Rightarrow> 's ssml_args \<Rightarrow> int" where
  "ssml_batch_size parse_int a =
     (case py_int parse_int (sarg_batch_size a) of Inl e \<Rightarrow> 8 | Inr n \<Rightarrow> n)"

definition ssml_handler :: "(pystr \<Rightarrow> int option) \<Rightarrow> 's ssml_args \<Rightarrow> pystr \<Rightarrow> 's SSMLHandler" where
  "ssml_handler parse_int a ssml =
     \<lparr>ssml_content = ssml,
      ssml_tts_mid = str_lit ''chat-tts'',
      ssml_infer_config =
        \<lparr>infer_batch_size = ssml_batch_size parse_int a,
         infer_spliter_threshold = sarg_spliter_thr a,
         infer_eos = sarg_eos a, infer_seed = None, infer_sync_gen = True\<rparr>,
      ssml_adjust_config =
        \<lparr>adj_pitch = sarg_pitch a, adj_speed_rate = sarg_speed_rate a,
         adj_volume_gain_db = sarg_volume_gain_db a,
         adj_normalize = sarg_normalize a, adj_headroom = sarg_headroom a\<rparr>,
      ssml_enhancer_config =
        \<lparr>enh_enabled = (sarg_enable_denoise a \<or> sarg_enable_enhance a \<or> False),
         enh_lambd = (if sarg_enable_denoise a then float_0_9 else float_0_1)\<rparr>,
      ssml_encoder_config = \<lparr>enc_format = mp3, enc_bitrate = ''64k''\<rparr>\<rparr>"

definition synthesize_ssml ::
  "(pystr \<Rightarrow> int option) \<Rightarrow> (pystr \<Rightarrow> error + ('b, 'p) segment list) \<Rightarrow> int \<Rightarrow> 's ssml_args
     \<Rightarrow> error + 's SSMLHandler" where
  "synthesize_ssml parse_int parse ssml_max a =
     (let ssml = strip (sarg_ssml a)
      in if ssml = [] then Inl (GrError ''SSML is empty, please input some SSML'')
         else
           case parse ssml of
             Inl e \<Rightarrow> Inl e
           | Inr parsed \<Rightarrow>
               let max_len = ssml_max;
                   segments = segments_length_limit parsed max_len
               in if length segments = 0 then Inl (GrError ''No valid segments in SSML'')
                  else Inr (ssml_handler parse_int a ssml))"

section \<open>refine_text (webui_utils.py, lines 334-356)\<close>

text \<open>
  The function normalizes the text, collects the prompt tokens in the list \<open>prompt\<close>
  and calls \<open>refiner.refine_text(text, prompt="".join(prompt), spliter_threshold)\<close>;
  the model returns the three arguments of that call. \<open>text_normalize\<close> (lines 326-329)
  calls the normalizer of another module and is a parameter.
\<close>

definition refine_text ::
  "(pystr \<Rightarrow> pystr) \<Rightarrow> pystr \<Rightarrow> int \<Rightarrow> int \<Rightarrow> int \<Rightarrow> int \<Rightarrow> int \<Rightarrow> pystr \<times> pystr \<times> int" where
  "refine_text text_normalize text oral speed rf_break laugh spliter_threshold =
     (let text' = text_normalize text;
          prompt0 = [];
          prompt1 = (if oral \<noteq> - 1
                     then prompt0 @ [str_lit ''[oral_'' @ str_of_int oral @ str_lit '']''] else prompt0);
          prompt2 = (if speed \<noteq> - 1
                     then prompt1 @ [str_lit ''[speed_'' @ str_of_int speed @ str_lit '']''] else prompt1);
          prompt3 = (if rf_break \<noteq> - 1
                     then prompt2 @ [str_lit ''[break_'' @ str_of_int rf_break @ str_lit '']''] else prompt2);
          prompt4 = (if laugh \<noteq> - 1
                     then prompt3 @ [str_lit ''[laugh_'' @ str_of_int laugh @ str_lit '']''] else prompt3)
      in (text', concat prompt4, spliter_threshold))"

text \<open>The token of a directive, and the directives in the order of the claim.\<close>

definition directive_token :: "string \<times> int \<Rightarrow> pystr" where
  "directive_token d = str_lit ''['' @ str_lit (fst d) @ str_lit ''_'' @ str_of_int (snd d) @ str_lit '']''"

definition given :: "string \<times> int \<Rightarrow> bool" where
  "given d \<longleftrightarrow> snd d \<noteq> - 1"

section \<open>Notions of the statements\<close>

text \<open>
  A number of numpy: an \<open>int\<close> of 64 bits (a \<open>bool\<close> is one) or a float other than NaN;
  and the order of a number and a bound.
\<close>

fun is_number :: "'s pyval \<Rightarrow> bool" where
  "is_number (PInt i) = np_int i"
| "is_number (PBool b) = True"
| "is_number (PFloat f) = (f \<noteq> NaN)"
| "is_number v = False"

fun is_below :: "'s pyval \<Rightarrow> real \<Rightarrow> bool" where
  "is_below (PInt i) x = (of_int i < x)"
| "is_below (PBool b) x = ((if b then 1 else 0) < x)"
| "is_below (PFloat (Finite r)) x = (r < x)"
| "is_below (PFloat NegInf) x = True"
| "is_below v x = False"

fun is_above :: "'s pyval \<Rightarrow> real \<Rightarrow> bool" where
  "is_above (PInt i) x = (x < of_int i)"
| "is_above (PBool b) x = (x < (if b then 1 else 0))"
| "is_above (PFloat (Finite r)) x = (x < r)"
| "is_above (PFloat PosInf) x = True"
| "is_above v x = False"

text \<open>A transcript is blank when it is \<open>None\<close> or empty after \<open>strip\<close> (line 258).\<close>

definition blank :: "pystr option \<Rightarrow> bool" where
  "blank t = (case t of None \<Rightarrow> True | Some s \<Rightarrow> strip s = [])"

section \<open>A concrete setting\<close>

text \<open>
  An environment and arguments to run the models on: speakers, files, audio and wav
  bytes are numbers; the style \<open>calm\<close> is a preset with a seed, a temperature and a
  prefix; the file 0 does not load. \<open>default_args\<close> are the defaults of the signature of
  \<open>tts_generate\<close> (\<open>0.3\<close> and \<open>0.7\<close> as binary64).
\<close>

definition ex_style :: "nat pyval \<Rightarrow> pystr \<Rightarrow> nat pydict" where
  "ex_style s style =
     (if style = str_lit ''calm''
      then [''seed'' \<mapsto> PInt 42, ''temperature'' \<mapsto> PFloat (Finite (1 / 2)),
            ''prefix'' \<mapsto> PStr (str_lit ''[calm]'')]
      else Map.empty)"

definition ex_from_file :: "nat \<Rightarrow> pystr + nat" where
  "ex_from_file f = (if f = 0 then Inl (str_lit ''no such file'') else Inr f)"

definition ex_env :: "(nat, nat, nat, nat) env" where
  "ex_env =
     \<lparr>tts_max = 5, calc_spk_style = ex_style, create_speaker_from_seed = nat \<circ> abs,
      from_file = ex_from_file, encode_to_wav = Suc, from_ref_wav_bytes = (\<lambda>w t. w + length t),
      int_of_str = (\<lambda>s. None), spk_name = (\<lambda>s. str_lit ''spk''),
      spk_gender = (\<lambda>s. str_lit ''*''), spk_desc = (\<lambda>s. [])\<rparr>"

definition default_args :: "pystr \<Rightarrow> (nat, nat, nat) tts_args" where
  "default_args text =
     \<lparr>arg_text = text,
      arg_temperature = PFloat (Finite (5404319552844595 / 2 ^ 54)),
      arg_top_p = PFloat (Finite (3152519739159347 / 2 ^ 52)),
      arg_top_k = PInt 20, arg_spk = PInt (- 1), arg_infer_seed = PInt (- 1),
      arg_use_decoder = True, arg_prompt1 = PStr [], arg_prompt2 = PStr [], arg_prefix = PStr [],
      arg_style = [], arg_disable_normalize = False, arg_batch_size = PInt 4,
      arg_enable_enhance = False, arg_enable_denoise = False, arg_spk_file = None,
      arg_spliter_thr = 100, arg_eos = str_lit ''[uv_break]'', arg_pitch = PInt 0,
      arg_speed_rate = PInt 1, arg_volume_gain_db = PInt 0, arg_normalize = True,
      arg_headroom = PInt 1, arg_ref_audio = None, arg_ref_audio_text = None,
      arg_model_id = str_lit ''chat-tts''\<rparr>"

text \<open>
  Two requests: the defaults with a text of 11 characters between blanks, and the same
  with the style \<open>calm\<close>.
\<close>

definition ex_args :: "(nat, nat, nat) tts_args" where
  "ex_args = default_args (str_lit ''  hello world '')"

definition ex_calm :: "(nat, nat, nat) tts_args" where
  "ex_calm = ex_args\<lparr>arg_style := str_lit ''calm''\<rparr>"

text \<open>A parser that reads any text as one text segment and a break, and SSML arguments.\<close>

definition ex_parse :: "pystr \<Rightarrow> error + (unit, unit) segment list" where
  "ex_parse s = Inr [SSMLSegment s (), SSMLBreak ()]"

definition ex_ssml_args :: "nat ssml_args" where
  "ex_ssml_args =
     \<lparr>sarg_ssml = str_lit ''<speak>hi</speak>'', sarg_batch_size = PInt 4,
      sarg_enable_enhance = True, sarg_enable_denoise = False, sarg_eos = str_lit ''[uv_break]'',
      sarg_spliter_thr = 100, sarg_pitch = PInt 0, sarg_speed_rate = PInt 1,
      sarg_volume_gain_db = PInt 0, sarg_normalize = True, sarg_headroom = PInt 1\<rparr>"

section \<open>Properties of the length limit\<close>

lemma limit_loop_cut:
  "\<exists>k\<le>length segs. limit_loop segs m n0 ret = ret @ take k segs
     \<and> (\<forall>j<k. is_text (segs ! j) \<longrightarrow> n0 + text_len (take (Suc j) segs) \<le> m)
     \<and> (k < length segs \<longrightarrow> is_text (segs ! k) \<and> n0 + text_len (take (Suc k) segs) > m)
     \<and> (n0 \<le> m \<longrightarrow> n0 + text_len (take k segs) \<le> m)
     \<and> (m < n0 \<longrightarrow> text_len (take k segs) = 0)"
proof (induction segs m n0 ret rule: limit_loop.induct)
  case (1 m n0 ret)
  then show ?case by simp
next
  case (2 b segs m n0 ret)
  then obtain k where k: "k \<le> length segs"
    "limit_loop segs m n0 (ret @ [SSMLBreak b]) = (ret @ [SSMLBreak b]) @ take k segs"
    "\<forall>j<k. is_text (segs ! j) \<longrightarrow> n0 + text_len (take (Suc j) segs) \<le> m"
    "k < length segs \<longrightarrow> is_text (segs ! k) \<and> n0 + text_len (take (Suc k) segs) > m"
    "n0 \<le> m \<longrightarrow> n0 + text_len (take k segs) \<le> m"
    "m < n0 \<longrightarrow> text_len (take k segs) = 0"
    by blast
  show ?case
  proof (intro exI[of _ "Suc k"] conjI allI impI)
    fix j assume "j < Suc k" "is_text ((SSMLBreak b # segs) ! j)"
    then show "n0 + text_len (take (Suc j) (SSMLBreak b # segs)) \<le> m"
      using k(3) by (cases j) auto
  qed (use k in auto)
next
  case (3 t p segs m n0 ret)
  show ?case
  proof (cases "n0 + int (length t) > m")
    case True
    then show ?thesis by (intro exI[of _ 0]) auto
  next
    case False
    with 3 obtain k where k: "k \<le> length segs"
      "limit_loop segs m (n0 + int (length t)) (ret @ [SSMLSegment t p])
         = (ret @ [SSMLSegment t p]) @ take k segs"
      "\<forall>j<k. is_text (segs ! j) \<longrightarrow> n0 + int (length t) + text_len (take (Suc j) segs) \<le> m"
      "k < length segs \<longrightarrow>
         is_text (segs ! k) \<and> n0 + int (length t) + text_len (take (Suc k) segs) > m"
      "n0 + int (length t) \<le> m \<longrightarrow> n0 + int (length t) + text_len (take k segs) \<le> m"
      by blast
    show ?thesis
    proof (intro exI[of _ "Suc k"] conjI allI impI)
      fix j assume "j < Suc k" "is_text ((SSMLSegment t p # segs) ! j)"
      then show "n0 + text_len (take (Suc j) (SSMLSegment t p # segs)) \<le> m"
        using k(3) False by (cases j) auto
    qed (use k False in auto)
  qed
qed

text \<open>
  C2. The result is a prefix \<open>take k segments\<close> of the input: every segment before
  position \<open>k\<close> is emitted in order, breaks included, and none of them is an over-budget
  text segment; when \<open>k\<close> is inside the input, the segment at \<open>k\<close> is a text segment that
  pushes the cumulative text length over the budget, and it and everything after it
  (later breaks included) are dropped. The budget is a maximal number of characters, a
  number that is not negative, and the emitted text length is at most the budget.
\<close>

theorem segments_length_limit_cutoff:
  "\<exists>k\<le>length segs. segments_length_limit segs total_max = take k segs
     \<and> (\<forall>j<k. \<not> over_budget segs total_max j)
     \<and> (k < length segs \<longrightarrow> over_budget segs total_max k)
     \<and> (0 \<le> total_max \<longrightarrow> text_len (segments_length_limit segs total_max) \<le> total_max)"
proof -
  obtain k where k: "k \<le> length segs"
    "limit_loop segs total_max 0 [] = [] @ take k segs"
    "\<forall>j<k. is_text (segs ! j) \<longrightarrow> 0 + text_len (take (Suc j) segs) \<le> total_max"
    "k < length segs \<longrightarrow> is_text (segs ! k) \<and> 0 + text_len (take (Suc k) segs) > total_max"
    "0 \<le> total_max \<longrightarrow> 0 + text_len (take k segs) \<le> total_max"
    "total_max < 0 \<longrightarrow> text_len (take k segs) = 0"
    using limit_loop_cut[of segs total_max 0 "[]"] by blast
  have res: "segments_length_limit segs total_max = take k segs"
    using k(2) by (simp add: segments_length_limit_def)
  have before: "\<forall>j<k. \<not> over_budget segs total_max j"
    using k(3) by (auto simp: over_budget_def)
  have at: "k < length segs \<longrightarrow> over_budget segs total_max k"
    using k(4) by (simp add: over_budget_def)
  show ?thesis
    using k(1) res before at k(5) by auto
qed

text \<open>
  The theorem at a budget of 3 and the segments \<open>ab\<close>, break, \<open>cd\<close>, break: \<open>cd\<close> would
  make 4, so \<open>ab\<close> and the first break are emitted and the last break is dropped.
\<close>

theorem segments_length_limit_cutoff_witness:
  "(0::int) \<le> 3
   \<and> segments_length_limit
        [SSMLSegment (str_lit ''ab'') (), SSMLBreak (), SSMLSegment (str_lit ''cd'') (), SSMLBreak ()] 3
      = [SSMLSegment (str_lit ''ab'') (), SSMLBreak ()]
   \<and> text_len (segments_length_limit
        [SSMLSegment (str_lit ''ab'') (), SSMLBreak (), SSMLSegment (str_lit ''cd'') (), SSMLBreak ()] 3)
      \<le> 3"
  using segments_length_limit_cutoff
    [of "[SSMLSegment (str_lit ''ab'') (), SSMLBreak (), SSMLSegment (str_lit ''cd'') (), SSMLBreak ()]" 3]
  by (simp add: segments_length_limit_def str_lit_def)

section \<open>Properties of the encoders\<close>

text \<open>
  C3. With the codec unset (\<open>None\<close>, or the empty string), four encoders take the codec
  of the table, and the \<open>aac\<close> encoder takes \<open>acc\<close>, which is not the \<open>aac\<close> of its own
  signature. The bitrate is the one passed, \<open>128k\<close> by default.
\<close>

theorem encoder_open_unset_codec:
  "Mp3Encoder_open None default_bitrate = (''mp3'', ''libmp3lame'', ''128k'')
   \<and> Mp3Encoder_open (Some []) default_bitrate = (''mp3'', ''libmp3lame'', ''128k'')
   \<and> WavEncoder_open None default_bitrate = (''wav'', ''pcm_s16le'', ''128k'')
   \<and> WavEncoder_open (Some []) default_bitrate = (''wav'', ''pcm_s16le'', ''128k'')
   \<and> OggEncoder_open None default_bitrate = (''ogg'', ''libvorbis'', ''128k'')
   \<and> OggEncoder_open (Some []) default_bitrate = (''ogg'', ''libvorbis'', ''128k'')
   \<and> FlacEncoder_open None default_bitrate = (''flac'', ''flac'', ''128k'')
   \<and> FlacEncoder_open (Some []) default_bitrate = (''flac'', ''flac'', ''128k'')
   \<and> AacEncoder_open None default_bitrate = (''aac'', ''acc'', ''128k'')
   \<and> AacEncoder_open (Some []) default_bitrate = (''aac'', ''acc'', ''128k'')
   \<and> AacEncoder_open AacEncoder_default_acodec default_bitrate = (''aac'', ''aac'', ''128k'')
   \<and> AacEncoder_open None bitrate = (''aac'', ''acc'', bitrate)"
  by (simp add: Mp3Encoder_open_def WavEncoder_open_def OggEncoder_open_def FlacEncoder_open_def
      AacEncoder_open_def AacEncoder_default_acodec_def codec_or_def default_bitrate_def)

section \<open>Lemmas about the numbers and the steps of tts_generate\<close>

lemmas eff_defs = tts_text_def tts_style_of_def style_preset_def eff_spk_def eff_infer_seed_def
  eff_temperature_def eff_prefix_def eff_prompt_def eff_prompt1_def eff_prompt2_def tts_batch_size_def

lemmas ex_defs = ex_env_def ex_args_def ex_calm_def default_args_def ex_style_def ex_from_file_def
  str_lit_def strip_def is_space_def slice_to_def dict_get_def py_or_def load_spk_file_def
  ref_audio_spk_def

lemma py_trunc_of_int: "py_trunc (of_int i) = i"
  by (simp add: py_trunc_def)

lemma py_trunc_bounds:
  assumes "of_int lo \<le> x" "x \<le> of_int hi" "lo \<le> 0" "0 \<le> hi"
  shows "lo \<le> py_trunc x \<and> py_trunc x \<le> hi"
proof (cases "0 \<le> x")
  case True
  then have "0 \<le> \<lfloor>x\<rfloor>" by simp
  moreover have "\<lfloor>x\<rfloor> \<le> hi" using assms(2) by (simp add: floor_le_iff)
  moreover have "py_trunc x = \<lfloor>x\<rfloor>" using True by (simp add: py_trunc_def)
  ultimately show ?thesis using assms(3) by linarith
next
  case False
  then have "\<lceil>x\<rceil> \<le> 0" by (simp add: ceiling_le_iff)
  moreover have "lo \<le> \<lceil>x\<rceil>" using assms(1) by (simp add: le_ceiling_iff)
  moreover have "py_trunc x = \<lceil>x\<rceil>" using False by (simp add: py_trunc_def)
  ultimately show ?thesis using assms(4) by linarith
qed

lemma clip_bounds:
  "(- 1 :: real) \<le> min (2 ^ 32 - 1) (max r (- 1)) \<and> min (2 ^ 32 - 1) (max r (- 1)) \<le> 2 ^ 32 - 1"
  by (simp add: min_def max_def)

lemma trunc_clip_range:
  "- 1 \<le> py_trunc (min (2 ^ 32 - 1) (max r (- 1)))
   \<and> py_trunc (min (2 ^ 32 - 1) (max r (- 1))) \<le> 2 ^ 32 - 1"
  using py_trunc_bounds[of "- 1" "min (2 ^ 32 - 1) (max r (- 1))" "2 ^ 32 - 1"] clip_bounds[of r]
  by simp

lemma clip_of_int:
  "min (2 ^ 32 - 1) (max (of_int i) (- 1)) = (of_int (min (2 ^ 32 - 1) (max i (- 1))) :: real)"
  by (simp add: min_def max_def)

lemma clip_seed_PInt: "np_int i \<Longrightarrow> clip_seed (PInt i) = Inr (min (2 ^ 32 - 1) (max i (- 1)))"
  unfolding clip_seed_def
  by (simp only: np_clip.simps if_True clip_of_int sum.case int_of_float.simps py_trunc_of_int)

lemma clip_seed_PInt_out: "\<not> np_int i \<Longrightarrow> clip_seed (PInt i) = Inl TypeError"
  by (simp add: clip_seed_def)

lemma clip_seed_PBool: "clip_seed (PBool b) = Inr (if b then 1 else 0)"
  by (simp add: clip_seed_def py_trunc_def)

lemma clip_seed_Finite:
  "clip_seed (PFloat (Finite r)) = Inr (py_trunc (min (2 ^ 32 - 1) (max r (- 1))))"
  by (simp add: clip_seed_def)

lemma clip_seed_range: "clip_seed v = Inr k \<Longrightarrow> - 1 \<le> k \<and> k \<le> 2 ^ 32 - 1"
proof (cases v)
  case (PInt i)
  assume "clip_seed v = Inr k"
  with PInt show ?thesis
    by (cases "np_int i") (auto simp: clip_seed_PInt clip_seed_PInt_out)
next
  case (PFloat f)
  assume a: "clip_seed v = Inr k"
  show ?thesis
  proof (cases f)
    case (Finite r)
    with a PFloat have "k = py_trunc (min (2 ^ 32 - 1) (max r (- 1)))"
      by (simp add: clip_seed_Finite)
    then show ?thesis using trunc_clip_range[of r] by simp
  next
    case PosInf
    with a PFloat show ?thesis using py_trunc_of_int[of "2 ^ 32 - 1"] by (simp add: clip_seed_def)
  next
    case NegInf
    with a PFloat show ?thesis using py_trunc_of_int[of "- 1"] by (simp add: clip_seed_def)
  next
    case NaN
    with a PFloat show ?thesis by (simp add: clip_seed_def)
  qed
qed (auto simp: clip_seed_def py_trunc_def)

lemma clip_seed_number:
  assumes "is_number v"
  shows "\<exists>k. clip_seed v = Inr k \<and> - 1 \<le> k \<and> k \<le> 2 ^ 32 - 1
           \<and> (is_below v (- 1) \<longrightarrow> k = - 1)
           \<and> (is_above v (2 ^ 32 - 1) \<longrightarrow> k = 2 ^ 32 - 1)
           \<and> (\<forall>i. v = PInt i \<and> - 1 \<le> i \<and> i \<le> 2 ^ 32 - 1 \<longrightarrow> k = i)"
proof (cases v)
  case (PInt i)
  then show ?thesis using assms by (auto simp: clip_seed_PInt)
next
  case (PBool b)
  then show ?thesis by (auto simp: clip_seed_PBool)
next
  case (PFloat f)
  show ?thesis
  proof (cases f)
    case (Finite r)
    have lo: "r < - 1 \<Longrightarrow> py_trunc (min (2 ^ 32 - 1) (max r (- 1))) = - 1"
      using py_trunc_of_int[of "- 1"] by (simp add: max_def min_def)
    have hi: "2 ^ 32 - 1 < r \<Longrightarrow> py_trunc (min (2 ^ 32 - 1) (max r (- 1))) = 2 ^ 32 - 1"
      using py_trunc_of_int[of "2 ^ 32 - 1"] by (simp add: max_def min_def)
    show ?thesis using PFloat Finite trunc_clip_range[of r] lo hi
      by (simp add: clip_seed_Finite)
  next
    case PosInf
    with PFloat show ?thesis using py_trunc_of_int[of "2 ^ 32 - 1"] by (simp add: clip_seed_def)
  next
    case NegInf
    with PFloat show ?thesis using py_trunc_of_int[of "- 1"] by (simp add: clip_seed_def)
  next
    case NaN
    with PFloat assms show ?thesis by simp
  qed
qed (use assms in auto)

lemma slice_pos: "0 < n \<Longrightarrow> slice_to s n = take (nat n) s"
  by (simp add: slice_to_def)

text \<open>When the function returns a handler, and which error each step gives.\<close>

lemma tts_generate_Inr_iff:
  "tts_generate env a = Inr h \<longleftrightarrow>
     tts_text env a \<noteq> [] \<and>
     (\<exists>top_k seed spk2 spk3.
        top_k_int (arg_top_k a) = Inr top_k
      \<and> clip_seed (eff_infer_seed env a) = Inr seed
      \<and> load_spk_file env (arg_spk_file a) (speaker_from_seed env (eff_spk env a)) = Inr spk2
      \<and> ref_audio_spk env (arg_ref_audio a) (arg_ref_audio_text a) spk2 = Inr spk3
      \<and> h = tts_handler env a top_k seed spk3)"
  by (auto simp: tts_generate_def split: sum.splits)

lemma int_of_float_not_GrError: "int_of_float f = Inl e \<Longrightarrow> e \<noteq> GrError m"
  by (cases f) auto

lemma top_k_int_not_GrError: "top_k_int v = Inl e \<Longrightarrow> e \<noteq> GrError m"
  by (cases v) (auto split: sum.splits dest: int_of_float_not_GrError)

lemma np_clip_not_GrError: "np_clip v lo hi = Inl e \<Longrightarrow> e \<noteq> GrError m"
  by (cases "(v, lo, hi)" rule: np_clip.cases) (auto split: if_splits)

lemma clip_seed_not_GrError: "clip_seed v = Inl e \<Longrightarrow> e \<noteq> GrError m"
  by (auto simp: clip_seed_def split: sum.splits dest: np_clip_not_GrError int_of_float_not_GrError)

lemma load_spk_file_Inl:
  "load_spk_file env f s = Inl e \<Longrightarrow> e = GrError ''Failed to load speaker file''"
  by (auto simp: load_spk_file_def split: option.splits sum.splits)

lemma ref_audio_spk_Inl:
  "ref_audio_spk env r t s = Inl e \<Longrightarrow> e = GrError ''ref_audio_text is empty''"
  by (auto simp: ref_audio_spk_def split: option.splits if_splits)

lemma tts_generate_text_error:
  "tts_generate env a = Inl (GrError ''Text is empty, please input some text'')
     \<longleftrightarrow> tts_text env a = []"
proof
  assume r: "tts_generate env a = Inl (GrError ''Text is empty, please input some text'')"
  show "tts_text env a = []"
  proof (rule ccontr)
    assume t: "tts_text env a \<noteq> []"
    show False
    proof (cases "top_k_int (arg_top_k a)")
      case (Inl e)
      with r t show False using top_k_int_not_GrError[OF Inl] by (simp add: tts_generate_def)
    next
      case K: (Inr top_k)
      show False
      proof (cases "clip_seed (eff_infer_seed env a)")
        case (Inl e)
        with r t K show False using clip_seed_not_GrError[OF Inl] by (simp add: tts_generate_def)
      next
        case S: (Inr seed)
        show False
        proof (cases "load_spk_file env (arg_spk_file a) (speaker_from_seed env (eff_spk env a))")
          case (Inl e)
          with r t K S show False using load_spk_file_Inl[OF Inl] by (simp add: tts_generate_def)
        next
          case L: (Inr spk2)
          show False
          proof (cases "ref_audio_spk env (arg_ref_audio a) (arg_ref_audio_text a) spk2")
            case (Inl e)
            with r t K S L show False using ref_audio_spk_Inl[OF Inl]
              by (simp add: tts_generate_def)
          next
            case (Inr spk3)
            with r t K S L show False by (simp add: tts_generate_def)
          qed
        qed
      qed
    qed
  qed
next
  assume "tts_text env a = []"
  then show "tts_generate env a = Inl (GrError ''Text is empty, please input some text'')"
    by (simp add: tts_generate_def)
qed

lemma tts_handler_text:
  "tts_handler env (a\<lparr>arg_text := t\<rparr>) top_k seed s
     = (tts_handler env a top_k seed s)\<lparr>text_content := tts_text env (a\<lparr>arg_text := t\<rparr>)\<rparr>"
  by (simp add: tts_handler_def eff_defs)

lemma tts_handler_ref_audio:
  "tts_handler env (a\<lparr>arg_ref_audio := r\<rparr>) top_k seed s = tts_handler env a top_k seed s"
  by (simp add: tts_handler_def eff_defs)

lemma tts_handler_spk: "(tts_handler env a top_k seed s)\<lparr>spk := s'\<rparr> = tts_handler env a top_k seed s'"
  by (simp add: tts_handler_def)

lemma eff_ref_audio:
  "tts_text env (a\<lparr>arg_ref_audio := r\<rparr>) = tts_text env a"
  "eff_infer_seed env (a\<lparr>arg_ref_audio := r\<rparr>) = eff_infer_seed env a"
  "eff_spk env (a\<lparr>arg_ref_audio := r\<rparr>) = eff_spk env a"
  by (simp_all add: eff_defs)

lemma eff_spk_file:
  "tts_text env (a\<lparr>arg_spk_file := f\<rparr>) = tts_text env a"
  "eff_infer_seed env (a\<lparr>arg_spk_file := f\<rparr>) = eff_infer_seed env a"
  "eff_spk env (a\<lparr>arg_spk_file := f\<rparr>) = eff_spk env a"
  by (simp_all add: eff_defs)

lemma eff_text:
  "eff_infer_seed env (a\<lparr>arg_text := t\<rparr>) = eff_infer_seed env a"
  "eff_spk env (a\<lparr>arg_text := t\<rparr>) = eff_spk env a"
  by (simp_all add: eff_defs)

text \<open>The two example requests run to a handler.\<close>

lemma ex_args_run:
  "tts_generate ex_env ex_args = Inr (tts_handler ex_env ex_args (PInt 20) (- 1) (PObj 1))"
  by (simp add: tts_generate_def eff_defs ex_defs clip_seed_PInt np_int_def)

lemma ex_calm_run:
  "tts_generate ex_env ex_calm = Inr (tts_handler ex_env ex_calm (PInt 20) (- 1) (PObj 1))"
  by (simp add: tts_generate_def eff_defs ex_defs clip_seed_PInt np_int_def)

section \<open>Coalescing of the caller's values with the style preset\<close>

text \<open>
  C1, as the code has it. In the handler that \<open>tts_generate\<close> builds, each of the five
  parameters is the caller's value when that value is true in Python's sense, and
  otherwise what \<open>params.get\<close> returns: the preset's value when the preset has one, else
  the caller's own value for the seed and the temperature and the empty string for the
  prefix and the two prompts. The seed then goes through the clamp and the temperature
  through its special case. \<open>-1\<close> is true, so an explicit seed of \<open>-1\<close> is kept whatever
  the preset says.
\<close>

theorem coalesce_by_truth:
  assumes "tts_generate env a = Inr h"
  shows "(\<exists>k. clip_seed (if truthy (arg_infer_seed a) then arg_infer_seed a
                     else dict_get (style_preset env a) ''seed'' (arg_infer_seed a)) = Inr k
             \<and> infer_seed (infer_config h) = Some k)
       \<and> tts_temperature (tts_config h) =
           final_temperature (if truthy (arg_temperature a) then arg_temperature a
              else dict_get (style_preset env a) ''temperature'' (arg_temperature a))
       \<and> tts_prefix (tts_config h) =
           (if truthy (arg_prefix a) then arg_prefix a
            else dict_get (style_preset env a) ''prefix'' (PStr []))
       \<and> tts_prompt1 (tts_config h) =
           (if truthy (arg_prompt1 a) then arg_prompt1 a
            else dict_get (style_preset env a) ''prompt1'' (PStr []))
       \<and> tts_prompt2 (tts_config h) =
           (if truthy (arg_prompt2 a) then arg_prompt2 a
            else dict_get (style_preset env a) ''prompt2'' (PStr []))
       \<and> (arg_infer_seed a = PInt (- 1) \<longrightarrow> infer_seed (infer_config h) = Some (- 1))"
proof -
  from assms obtain top_k seed spk3 where
    s: "clip_seed (eff_infer_seed env a) = Inr seed" and h: "h = tts_handler env a top_k seed spk3"
    by (auto simp: tts_generate_Inr_iff)
  have minus: "arg_infer_seed a = PInt (- 1) \<Longrightarrow> seed = - 1"
    using s by (simp add: eff_infer_seed_def py_or_def clip_seed_PInt np_int_def)
  show ?thesis
    using s minus
    by (simp add: h tts_handler_def eff_infer_seed_def eff_temperature_def eff_prefix_def
        eff_prompt1_def eff_prompt2_def py_or_def)
qed

text \<open>
  The theorem at the style \<open>calm\<close> (seed 42, prefix \<open>[calm]\<close>) with an explicit seed of 0
  and an explicit prefix \<open>[fast]\<close>: the seed is the preset's, the prefix the caller's.
\<close>

theorem coalesce_by_truth_witness:
  "map_sum id (infer_seed \<circ> infer_config)
     (tts_generate ex_env (ex_calm\<lparr>arg_infer_seed := PInt 0, arg_prefix := PStr (str_lit ''[fast]'')\<rparr>))
     = Inr (Some 42)
   \<and> map_sum id (tts_prefix \<circ> tts_config)
     (tts_generate ex_env (ex_calm\<lparr>arg_infer_seed := PInt 0, arg_prefix := PStr (str_lit ''[fast]'')\<rparr>))
     = Inr (PStr (str_lit ''[fast]''))"
proof -
  let ?a = "ex_calm\<lparr>arg_infer_seed := PInt 0, arg_prefix := PStr (str_lit ''[fast]'')\<rparr>"
  have run: "tts_generate ex_env ?a = Inr (tts_handler ex_env ?a (PInt 20) 42 (PObj 1))"
    by (simp add: tts_generate_def eff_defs ex_defs clip_seed_PInt np_int_def)
  show ?thesis
    using coalesce_by_truth[OF run]
    by (simp add: run) (simp add: eff_defs ex_defs clip_seed_PInt np_int_def)
qed

text \<open>
  C1 as stated fails at the sentinel: with the style \<open>calm\<close>, whose preset has the seed
  42, and the explicit seed \<open>-1\<close>, the seed of the handler is \<open>-1\<close>, not the preset's.
\<close>

theorem explicit_minus_one_is_used:
  "dict_get (style_preset ex_env ex_calm) ''seed'' PNone = PInt 42
   \<and> arg_infer_seed ex_calm = PInt (- 1)
   \<and> map_sum id (infer_seed \<circ> infer_config) (tts_generate ex_env ex_calm) = Inr (Some (- 1))"
  by (simp add: ex_calm_run) (simp add: tts_handler_def eff_defs ex_defs)

section \<open>The seed clamp\<close>

text \<open>
  C4, as the code has it. For every number that numpy takes as one (an \<open>int\<close> in
  \<open>[-2^63, 2^64)\<close>, or a float that is not NaN) the clamp of lines 240-241 returns an
  integer between \<open>-1\<close> and \<open>2^32 - 1\<close>: \<open>-1\<close> for a number below \<open>-1\<close>, \<open>2^32 - 1\<close> for
  a number above it, and the integer itself when it lies in the range. An \<open>int\<close> outside
  \<open>[-2^63, 2^64)\<close> is not clamped: the call raises. The seed of the handler that
  \<open>tts_generate\<close> builds is the clamp of the coalesced seed, so it lies in the range
  whenever the function returns.
\<close>

theorem seed_clamp:
  "(is_number v \<longrightarrow>
      (\<exists>k. clip_seed v = Inr k \<and> - 1 \<le> k \<and> k \<le> 2 ^ 32 - 1
         \<and> (is_below v (- 1) \<longrightarrow> k = - 1)
         \<and> (is_above v (2 ^ 32 - 1) \<longrightarrow> k = 2 ^ 32 - 1)
         \<and> (\<forall>i. v = PInt i \<and> - 1 \<le> i \<and> i \<le> 2 ^ 32 - 1 \<longrightarrow> k = i)))
   \<and> (\<forall>i. v = PInt i \<and> \<not> np_int i \<longrightarrow> clip_seed v = Inl TypeError)
   \<and> (tts_generate env a = Inr h \<longrightarrow>
      (\<exists>k. infer_seed (infer_config h) = Some k \<and> clip_seed (eff_infer_seed env a) = Inr k
         \<and> - 1 \<le> k \<and> k \<le> 2 ^ 32 - 1))"
proof (intro conjI impI allI)
  fix i assume "v = PInt i \<and> \<not> np_int i"
  then show "clip_seed v = Inl TypeError" by (simp add: clip_seed_PInt_out)
next
  assume "is_number v"
  then show "\<exists>k. clip_seed v = Inr k \<and> - 1 \<le> k \<and> k \<le> 2 ^ 32 - 1
         \<and> (is_below v (- 1) \<longrightarrow> k = - 1)
         \<and> (is_above v (2 ^ 32 - 1) \<longrightarrow> k = 2 ^ 32 - 1)
         \<and> (\<forall>i. v = PInt i \<and> - 1 \<le> i \<and> i \<le> 2 ^ 32 - 1 \<longrightarrow> k = i)"
    by (rule clip_seed_number)
next
  assume "tts_generate env a = Inr h"
  then obtain top_k seed spk3 where
    s: "clip_seed (eff_infer_seed env a) = Inr seed" and h: "h = tts_handler env a top_k seed spk3"
    by (auto simp: tts_generate_Inr_iff)
  show "\<exists>k. infer_seed (infer_config h) = Some k \<and> clip_seed (eff_infer_seed env a) = Inr k
         \<and> - 1 \<le> k \<and> k \<le> 2 ^ 32 - 1"
    using s clip_seed_range[OF s] by (simp add: h tts_handler_def)
qed

text \<open>
  The theorem at the seeds 5000000000, \<open>-7\<close>, 1234 and 3.5, and at a request with the
  seed 5000000000 (\<open>2^32 - 1\<close> is 4294967295).
\<close>

theorem seed_clamp_witness:
  "is_number (PInt 5000000000 :: nat pyval)
   \<and> clip_seed (PInt 5000000000 :: nat pyval) = Inr 4294967295
   \<and> clip_seed (PInt (- 7) :: nat pyval) = Inr (- 1)
   \<and> clip_seed (PInt 1234 :: nat pyval) = Inr 1234
   \<and> clip_seed (PFloat (Finite (7 / 2)) :: nat pyval) = Inr 3
   \<and> map_sum id (infer_seed \<circ> infer_config)
        (tts_generate ex_env (ex_args\<lparr>arg_infer_seed := PInt 5000000000\<rparr>)) = Inr (Some 4294967295)"
proof -
  let ?a = "ex_args\<lparr>arg_infer_seed := PInt 5000000000\<rparr>"
  have run: "tts_generate ex_env ?a = Inr (tts_handler ex_env ?a (PInt 20) 4294967295 (PObj 1))"
    by (simp add: tts_generate_def eff_defs ex_defs clip_seed_PInt np_int_def)
  have field: "infer_seed (infer_config (tts_handler ex_env ?a (PInt 20) 4294967295 (PObj 1)))
                 = Some 4294967295"
    by (simp add: tts_handler_def)
  show ?thesis
    using seed_clamp[of "PInt 5000000000" ex_env ?a "tts_handler ex_env ?a (PInt 20) 4294967295 (PObj 1)"]
      run field
    by (simp add: clip_seed_PInt np_int_def clip_seed_Finite py_trunc_def)
qed

text \<open>
  C4 as stated fails at an \<open>int\<close> that numpy does not take as a number: the seed
  \<open>2^64\<close> (18446744073709551616) is above \<open>2^32 - 1\<close> and is not mapped to it; the clamp
  raises, and so does the request.
\<close>

theorem huge_seed_raises:
  "is_above (PInt 18446744073709551616 :: nat pyval) (2 ^ 32 - 1)
   \<and> clip_seed (PInt 18446744073709551616 :: nat pyval) = Inl TypeError
   \<and> tts_generate ex_env (ex_args\<lparr>arg_infer_seed := PInt 18446744073709551616\<rparr>) = Inl TypeError"
  by (simp add: tts_generate_def eff_defs ex_defs clip_seed_PInt_out np_int_def)

section \<open>The temperature\<close>

text \<open>
  C5, as the code has it. The temperature of the handler is the effective temperature
  (the coalesced one), with \<open>1e-9\<close> in place of a value equal to \<open>0.1\<close>. The effective
  temperature is the caller's value when that is true, or when the preset has no
  temperature; so a caller's value that is true and not \<open>0.1\<close> passes through unchanged,
  and a value that is false (0, \<open>None\<close>) is replaced by the preset's temperature.
\<close>

theorem temperature_special_case:
  assumes "tts_generate env a = Inr h"
  shows "tts_temperature (tts_config h) =
           (if py_eq_float (eff_temperature env a) float_0_1 then PFloat (Finite min_n)
            else eff_temperature env a)
       \<and> (truthy (arg_temperature a) \<longrightarrow> eff_temperature env a = arg_temperature a)
       \<and> (style_preset env a ''temperature'' = None \<longrightarrow> eff_temperature env a = arg_temperature a)
       \<and> (\<not> truthy (arg_temperature a) \<longrightarrow>
            eff_temperature env a = dict_get (style_preset env a) ''temperature'' (arg_temperature a))
       \<and> (truthy (arg_temperature a) \<and> \<not> py_eq_float (arg_temperature a) float_0_1 \<longrightarrow>
            tts_temperature (tts_config h) = arg_temperature a)
       \<and> (arg_temperature a = PFloat (Finite float_0_1) \<longrightarrow>
            tts_temperature (tts_config h) = PFloat (Finite min_n))"
  using assms
  by (auto simp: tts_generate_Inr_iff tts_handler_def final_temperature_def eff_temperature_def
      py_or_def dict_get_def float_0_1_def)

text \<open>The theorem at the temperature \<open>0.1\<close>, and at the default \<open>0.3\<close>.\<close>

theorem temperature_special_case_witness:
  "map_sum id (tts_temperature \<circ> tts_config)
     (tts_generate ex_env (ex_args\<lparr>arg_temperature := PFloat (Finite float_0_1)\<rparr>))
     = Inr (PFloat (Finite min_n))
   \<and> map_sum id (tts_temperature \<circ> tts_config) (tts_generate ex_env ex_args)
     = Inr (arg_temperature ex_args)"
proof -
  let ?a = "ex_args\<lparr>arg_temperature := PFloat (Finite float_0_1)\<rparr>"
  have run: "tts_generate ex_env ?a = Inr (tts_handler ex_env ?a (PInt 20) (- 1) (PObj 1))"
    by (simp add: tts_generate_def eff_defs ex_defs clip_seed_PInt np_int_def)
  have t1: "tts_temperature (tts_config (tts_handler ex_env ?a (PInt 20) (- 1) (PObj 1)))
              = PFloat (Finite min_n)"
    using temperature_special_case[OF run]
    by (simp add: eff_temperature_def py_or_def float_0_1_def)
  have t2: "tts_temperature (tts_config (tts_handler ex_env ex_args (PInt 20) (- 1) (PObj 1)))
              = arg_temperature ex_args"
    using temperature_special_case[OF ex_args_run]
    by (simp add: eff_temperature_def py_or_def ex_args_def default_args_def float_0_1_def)
  show ?thesis
    using t1 t2 run ex_args_run by simp
qed

text \<open>
  C5 as stated fails at a caller's temperature that is false: with the style \<open>calm\<close>,
  whose preset has the temperature \<open>0.5\<close>, and the caller's temperature 0, the effective
  temperature is not \<open>0.1\<close> and the handler has \<open>0.5\<close>, not the caller's 0.
\<close>

theorem zero_temperature_is_replaced:
  "arg_temperature (ex_calm\<lparr>arg_temperature := PFloat (Finite 0)\<rparr>) = PFloat (Finite 0)
   \<and> \<not> py_eq_float (eff_temperature ex_env (ex_calm\<lparr>arg_temperature := PFloat (Finite 0)\<rparr>)) float_0_1
   \<and> map_sum id (tts_temperature \<circ> tts_config)
        (tts_generate ex_env (ex_calm\<lparr>arg_temperature := PFloat (Finite 0)\<rparr>))
      = Inr (PFloat (Finite (1 / 2)))"
  by (simp add: tts_generate_def tts_handler_def final_temperature_def eff_defs ex_defs
      clip_seed_PInt np_int_def float_0_1_def)

section \<open>The enhancer\<close>

text \<open>
  C6. In the handler of \<open>tts_generate\<close> and in the handler of \<open>synthesize_ssml\<close> the
  \<open>EnhancerConfig\<close> has \<open>lambd = 0.9\<close> when the denoise flag is set and \<open>lambd = 0.1\<close>
  when only the enhance flag is set, enabled in both cases; with neither flag
  \<open>enabled\<close> is \<open>False\<close>.
\<close>

theorem enhancer_presets:
  "(tts_generate env a = Inr h \<longrightarrow>
      (arg_enable_denoise a \<longrightarrow>
         enh_enabled (enhancer_config h) \<and> enh_lambd (enhancer_config h) = float_0_9)
    \<and> (\<not> arg_enable_denoise a \<and> arg_enable_enhance a \<longrightarrow>
         enh_enabled (enhancer_config h) \<and> enh_lambd (enhancer_config h) = float_0_1)
    \<and> (\<not> arg_enable_denoise a \<and> \<not> arg_enable_enhance a \<longrightarrow> \<not> enh_enabled (enhancer_config h)))
   \<and> (synthesize_ssml parse_int parse ssml_max sa = Inr sh \<longrightarrow>
      (sarg_enable_denoise sa \<longrightarrow>
         enh_enabled (ssml_enhancer_config sh) \<and> enh_lambd (ssml_enhancer_config sh) = float_0_9)
    \<and> (\<not> sarg_enable_denoise sa \<and> sarg_enable_enhance sa \<longrightarrow>
         enh_enabled (ssml_enhancer_config sh) \<and> enh_lambd (ssml_enhancer_config sh) = float_0_1)
    \<and> (\<not> sarg_enable_denoise sa \<and> \<not> sarg_enable_enhance sa \<longrightarrow>
         \<not> enh_enabled (ssml_enhancer_config sh)))"
proof (rule conjI; rule impI)
  assume "tts_generate env a = Inr h"
  then obtain top_k seed spk3 where h: "h = tts_handler env a top_k seed spk3"
    by (auto simp: tts_generate_Inr_iff)
  show "(arg_enable_denoise a \<longrightarrow>
         enh_enabled (enhancer_config h) \<and> enh_lambd (enhancer_config h) = float_0_9)
    \<and> (\<not> arg_enable_denoise a \<and> arg_enable_enhance a \<longrightarrow>
         enh_enabled (enhancer_config h) \<and> enh_lambd (enhancer_config h) = float_0_1)
    \<and> (\<not> arg_enable_denoise a \<and> \<not> arg_enable_enhance a \<longrightarrow> \<not> enh_enabled (enhancer_config h))"
    by (simp add: h tts_handler_def)
next
  assume "synthesize_ssml parse_int parse ssml_max sa = Inr sh"
  then have sh: "sh = ssml_handler parse_int sa (strip (sarg_ssml sa))"
    by (auto simp: synthesize_ssml_def Let_def split: if_splits sum.splits)
  show "(sarg_enable_denoise sa \<longrightarrow>
         enh_enabled (ssml_enhancer_config sh) \<and> enh_lambd (ssml_enhancer_config sh) = float_0_9)
    \<and> (\<not> sarg_enable_denoise sa \<and> sarg_enable_enhance sa \<longrightarrow>
         enh_enabled (ssml_enhancer_config sh) \<and> enh_lambd (ssml_enhancer_config sh) = float_0_1)
    \<and> (\<not> sarg_enable_denoise sa \<and> \<not> sarg_enable_enhance sa \<longrightarrow>
         \<not> enh_enabled (ssml_enhancer_config sh))"
    by (simp add: sh ssml_handler_def)
qed

text \<open>
  The theorem at a text request with denoise set, a text request with no flag, and an
  SSML request with only enhance set.
\<close>

theorem enhancer_presets_witness:
  "map_sum id enhancer_config (tts_generate ex_env (ex_args\<lparr>arg_enable_denoise := True\<rparr>))
     = Inr \<lparr>enh_enabled = True, enh_lambd = float_0_9\<rparr>
   \<and> map_sum id (enh_enabled \<circ> enhancer_config) (tts_generate ex_env ex_args) = Inr False
   \<and> map_sum id ssml_enhancer_config (synthesize_ssml Map.empty ex_parse 100 ex_ssml_args)
     = Inr \<lparr>enh_enabled = True, enh_lambd = float_0_1\<rparr>"
proof -
  let ?a = "ex_args\<lparr>arg_enable_denoise := True\<rparr>"
  have run: "tts_generate ex_env ?a = Inr (tts_handler ex_env ?a (PInt 20) (- 1) (PObj 1))"
    by (simp add: tts_generate_def eff_defs ex_defs clip_seed_PInt np_int_def)
  have srun: "synthesize_ssml Map.empty ex_parse 100 ex_ssml_args
                = Inr (ssml_handler Map.empty ex_ssml_args (str_lit ''<speak>hi</speak>''))"
    by (simp add: synthesize_ssml_def ex_parse_def ex_ssml_args_def segments_length_limit_def
        Let_def str_lit_def strip_def is_space_def)
  have flags: "arg_enable_denoise ?a" "\<not> arg_enable_denoise ex_args" "\<not> arg_enable_enhance ex_args"
    "\<not> sarg_enable_denoise ex_ssml_args" "sarg_enable_enhance ex_ssml_args"
    by (simp_all add: ex_args_def default_args_def ex_ssml_args_def)
  show ?thesis
    using enhancer_presets[of ex_env ?a "tts_handler ex_env ?a (PInt 20) (- 1) (PObj 1)"
        Map.empty ex_parse 100 ex_ssml_args
        "ssml_handler Map.empty ex_ssml_args (str_lit ''<speak>hi</speak>'')"]
      enhancer_presets[of ex_env ex_args "tts_handler ex_env ex_args (PInt 20) (- 1) (PObj 1)"
        Map.empty ex_parse 100 ex_ssml_args
        "ssml_handler Map.empty ex_ssml_args (str_lit ''<speak>hi</speak>'')"]
      run srun ex_args_run flags
    by (simp add: EnhancerConfig.equality)
qed

section \<open>The reference audio\<close>

text \<open>
  C7. With a reference audio and a transcript that is \<open>None\<close> or blank, the request
  fails: \<open>tts_generate\<close> returns an error and builds no handler, so nothing is
  synthesized; the error is \<open>ref_audio_text is empty\<close> whenever the same request without
  the reference audio is accepted (otherwise an earlier check has failed). With a
  transcript that is not blank, a request that is accepted without the reference audio is
  accepted with it, and its speaker is \<open>from_ref_wav_bytes\<close> of the encoded audio and the
  transcript.
\<close>

theorem ref_audio_needs_transcript:
  assumes "arg_ref_audio a = Some audio"
  shows "(blank (arg_ref_audio_text a) \<longrightarrow> (\<exists>e. tts_generate env a = Inl e))
       \<and> (blank (arg_ref_audio_text a) \<and> tts_generate env (a\<lparr>arg_ref_audio := None\<rparr>) = Inr h
            \<longrightarrow> tts_generate env a = Inl (GrError ''ref_audio_text is empty''))
       \<and> (\<not> blank (arg_ref_audio_text a) \<and> tts_generate env (a\<lparr>arg_ref_audio := None\<rparr>) = Inr h
            \<longrightarrow> (\<exists>t. arg_ref_audio_text a = Some t
                  \<and> tts_generate env a
                      = Inr (h\<lparr>spk := PObj (from_ref_wav_bytes env (encode_to_wav env audio) t)\<rparr>)))"
proof (intro conjI impI)
  assume b: "blank (arg_ref_audio_text a)"
  have "ref_audio_spk env (arg_ref_audio a) (arg_ref_audio_text a) s
          = Inl (GrError ''ref_audio_text is empty'')" for s
    using b assms by (auto simp: ref_audio_spk_def blank_def split: option.splits)
  then show "\<exists>e. tts_generate env a = Inl e"
    by (auto simp: tts_generate_def split: sum.splits)
next
  assume "blank (arg_ref_audio_text a) \<and> tts_generate env (a\<lparr>arg_ref_audio := None\<rparr>) = Inr h"
  then have b: "blank (arg_ref_audio_text a)"
    and r: "tts_generate env (a\<lparr>arg_ref_audio := None\<rparr>) = Inr h" by simp_all
  from r obtain top_k seed spk2 where st:
    "tts_text env a \<noteq> []"
    "top_k_int (arg_top_k a) = Inr top_k"
    "clip_seed (eff_infer_seed env a) = Inr seed"
    "load_spk_file env (arg_spk_file a) (speaker_from_seed env (eff_spk env a)) = Inr spk2"
    by (auto simp: tts_generate_Inr_iff eff_ref_audio)
  have "ref_audio_spk env (arg_ref_audio a) (arg_ref_audio_text a) spk2
          = Inl (GrError ''ref_audio_text is empty'')"
    using b assms by (auto simp: ref_audio_spk_def blank_def split: option.splits)
  then show "tts_generate env a = Inl (GrError ''ref_audio_text is empty'')"
    using st by (simp add: tts_generate_def)
next
  assume "\<not> blank (arg_ref_audio_text a) \<and> tts_generate env (a\<lparr>arg_ref_audio := None\<rparr>) = Inr h"
  then have b: "\<not> blank (arg_ref_audio_text a)"
    and r: "tts_generate env (a\<lparr>arg_ref_audio := None\<rparr>) = Inr h" by simp_all
  from b obtain t where t: "arg_ref_audio_text a = Some t" "strip t \<noteq> []"
    by (auto simp: blank_def split: option.splits)
  from r obtain top_k seed spk2 where st:
    "tts_text env a \<noteq> []"
    "top_k_int (arg_top_k a) = Inr top_k"
    "clip_seed (eff_infer_seed env a) = Inr seed"
    "load_spk_file env (arg_spk_file a) (speaker_from_seed env (eff_spk env a)) = Inr spk2"
    "h = tts_handler env a top_k seed spk2"
    by (auto simp: tts_generate_Inr_iff eff_ref_audio ref_audio_spk_def tts_handler_ref_audio)
  have "ref_audio_spk env (arg_ref_audio a) (arg_ref_audio_text a) spk2
          = Inr (PObj (from_ref_wav_bytes env (encode_to_wav env audio) t))"
    using t assms by (simp add: ref_audio_spk_def)
  then have "tts_generate env a
               = Inr (h\<lparr>spk := PObj (from_ref_wav_bytes env (encode_to_wav env audio) t)\<rparr>)"
    using st by (simp add: tts_generate_def tts_handler_spk)
  with t show "\<exists>t. arg_ref_audio_text a = Some t
                  \<and> tts_generate env a
                      = Inr (h\<lparr>spk := PObj (from_ref_wav_bytes env (encode_to_wav env audio) t)\<rparr>)"
    by simp
qed

text \<open>
  The theorem at the reference audio 7 with a transcript of two blanks, and with the
  transcript \<open>hi\<close> (the example's speaker of wav bytes 8 and a transcript of length 2
  is 10).
\<close>

theorem ref_audio_needs_transcript_witness:
  "tts_generate ex_env (ex_args\<lparr>arg_ref_audio := Some 7, arg_ref_audio_text := Some (str_lit ''  '')\<rparr>)
     = Inl (GrError ''ref_audio_text is empty'')
   \<and> map_sum id spk
        (tts_generate ex_env (ex_args\<lparr>arg_ref_audio := Some 7, arg_ref_audio_text := Some (str_lit ''hi'')\<rparr>))
      = Inr (PObj 10)"
proof -
  let ?b = "ex_args\<lparr>arg_ref_audio := Some 7, arg_ref_audio_text := Some (str_lit ''  '')\<rparr>"
  let ?c = "ex_args\<lparr>arg_ref_audio := Some 7, arg_ref_audio_text := Some (str_lit ''hi'')\<rparr>"
  have rb: "tts_generate ex_env (?b\<lparr>arg_ref_audio := None\<rparr>)
              = Inr (tts_handler ex_env (?b\<lparr>arg_ref_audio := None\<rparr>) (PInt 20) (- 1) (PObj 1))"
    by (simp add: tts_generate_def eff_defs ex_defs clip_seed_PInt np_int_def)
  have rc: "tts_generate ex_env (?c\<lparr>arg_ref_audio := None\<rparr>)
              = Inr (tts_handler ex_env (?c\<lparr>arg_ref_audio := None\<rparr>) (PInt 20) (- 1) (PObj 1))"
    by (simp add: tts_generate_def eff_defs ex_defs clip_seed_PInt np_int_def)
  have bb: "blank (arg_ref_audio_text ?b)" "\<not> blank (arg_ref_audio_text ?c)"
    by (simp_all add: blank_def str_lit_def strip_def is_space_def)
  have ab: "arg_ref_audio ?b = Some 7" "arg_ref_audio ?c = Some 7" by simp_all
  have first: "tts_generate ex_env ?b = Inl (GrError ''ref_audio_text is empty'')"
    using ref_audio_needs_transcript[OF ab(1), of ex_env] bb(1) rb by blast
  have second: "tts_generate ex_env ?c
     = Inr ((tts_handler ex_env (?c\<lparr>arg_ref_audio := None\<rparr>) (PInt 20) (- 1) (PObj 1))
              \<lparr>spk := PObj (from_ref_wav_bytes ex_env (encode_to_wav ex_env 7) (str_lit ''hi''))\<rparr>)"
    using ref_audio_needs_transcript[OF ab(2), of ex_env] bb(2) rc by auto
  show ?thesis
    using first second by (simp add: ex_env_def str_lit_def)
qed

section \<open>The prompt of refine_text\<close>

text \<open>
  C8. The prompt that \<open>refine_text\<close> passes on is the concatenation of the tokens
  \<open>[oral_k]\<close>, \<open>[speed_k]\<close>, \<open>[break_k]\<close>, \<open>[laugh_k]\<close>, in this order, of exactly those
  of \<open>oral\<close>, \<open>speed\<close>, \<open>rf_break\<close>, \<open>laugh\<close> that are not \<open>-1\<close>, with \<open>k\<close> the value in
  decimal. The text is the normalized text and the threshold is passed on.
\<close>

theorem refine_text_prompt:
  "refine_text text_normalize text oral speed rf_break laugh spliter_threshold =
     (text_normalize text,
      concat (map directive_token
        (filter given [(''oral'', oral), (''speed'', speed), (''break'', rf_break), (''laugh'', laugh)])),
      spliter_threshold)"
  by (simp add: refine_text_def Let_def directive_token_def given_def str_lit_def)

text \<open>The theorem at \<open>oral = 2\<close>, \<open>rf_break = 13\<close> and the other two left at \<open>-1\<close>.\<close>

theorem refine_text_prompt_witness:
  "refine_text id (str_lit ''hi'') 2 (- 1) 13 (- 1) 300
     = (str_lit ''hi'', str_lit ''[oral_2][break_13]'', 300)"
  using refine_text_prompt[of id "str_lit ''hi''" 2 "- 1" 13 "- 1" 300]
  by (simp add: directive_token_def given_def str_lit_def str_of_int_def)

section \<open>A speaker file that does not load\<close>

text \<open>
  C9. \<open>load_spk_info\<close> returns a string in each of its three cases and so never raises:
  \<open>empty\<close> for \<open>None\<close>, the description of the speaker when the file loads, and
  \<open>load failed\<close>, with one more message in the log, when \<open>from_file\<close> raises. In
  \<open>tts_generate\<close> the same failure ends the request: the function returns an error and
  builds no handler, and the error is \<open>Failed to load speaker file\<close> whenever the same
  request without the file is accepted (otherwise an earlier check has failed).
\<close>

theorem speaker_file_failure:
  "load_spk_info env None logged = (str_lit ''empty'', logged)
   \<and> (from_file env f = Inl msg \<longrightarrow>
        load_spk_info env (Some f) logged
          = (str_lit ''load failed'', logged @ [str_lit ''load spk info failed: '' @ msg]))
   \<and> (from_file env f = Inr s \<longrightarrow> (\<exists>info. load_spk_info env (Some f) logged = (info, logged)))
   \<and> (from_file env f = Inl msg \<and> arg_spk_file a = Some f \<longrightarrow> (\<exists>e. tts_generate env a = Inl e))
   \<and> (from_file env f = Inl msg \<and> arg_spk_file a = Some f
        \<and> tts_generate env (a\<lparr>arg_spk_file := None\<rparr>) = Inr h
        \<longrightarrow> tts_generate env a = Inl (GrError ''Failed to load speaker file''))"
proof -
  have info: "load_spk_info env None logged = (str_lit ''empty'', logged)"
    "from_file env f = Inl msg \<longrightarrow>
        load_spk_info env (Some f) logged
          = (str_lit ''load failed'', logged @ [str_lit ''load spk info failed: '' @ msg])"
    "from_file env f = Inr s \<longrightarrow> (\<exists>info. load_spk_info env (Some f) logged = (info, logged))"
    by (simp_all add: load_spk_info_def load_spk_info_try_def)
  have fails: "load_spk_file env (arg_spk_file a) x = Inl (GrError ''Failed to load speaker file'')"
    if "from_file env f = Inl msg" "arg_spk_file a = Some f" for x
    using that by (simp add: load_spk_file_def)
  have fatal: "from_file env f = Inl msg \<and> arg_spk_file a = Some f \<longrightarrow> (\<exists>e. tts_generate env a = Inl e)"
    using fails by (auto simp: tts_generate_def split: sum.splits)
  have named: "from_file env f = Inl msg \<and> arg_spk_file a = Some f
        \<and> tts_generate env (a\<lparr>arg_spk_file := None\<rparr>) = Inr h
        \<longrightarrow> tts_generate env a = Inl (GrError ''Failed to load speaker file'')"
  proof
    assume p: "from_file env f = Inl msg \<and> arg_spk_file a = Some f
        \<and> tts_generate env (a\<lparr>arg_spk_file := None\<rparr>) = Inr h"
    then obtain top_k seed where st:
      "tts_text env a \<noteq> []"
      "top_k_int (arg_top_k a) = Inr top_k"
      "clip_seed (eff_infer_seed env a) = Inr seed"
      by (auto simp: tts_generate_Inr_iff eff_spk_file)
    show "tts_generate env a = Inl (GrError ''Failed to load speaker file'')"
      using st fails p by (simp add: tts_generate_def)
  qed
  show ?thesis
    using info fatal named by blast
qed

text \<open>
  The theorem at the example's file 0, which does not load: the inspection returns
  \<open>load failed\<close> and logs the failure, the request fails.
\<close>

theorem speaker_file_failure_witness:
  "from_file ex_env 0 = Inl (str_lit ''no such file'')
   \<and> load_spk_info ex_env (Some 0) []
       = (str_lit ''load failed'', [str_lit ''load spk info failed: no such file''])
   \<and> tts_generate ex_env (ex_args\<lparr>arg_spk_file := Some 0\<rparr>)
       = Inl (GrError ''Failed to load speaker file'')"
proof -
  let ?a = "ex_args\<lparr>arg_spk_file := Some 0\<rparr>"
  have f: "from_file ex_env 0 = Inl (str_lit ''no such file'')"
    by (simp add: ex_env_def ex_from_file_def)
  have run: "tts_generate ex_env (?a\<lparr>arg_spk_file := None\<rparr>)
               = Inr (tts_handler ex_env (?a\<lparr>arg_spk_file := None\<rparr>) (PInt 20) (- 1) (PObj 1))"
    by (simp add: tts_generate_def eff_defs ex_defs clip_seed_PInt np_int_def)
  have has_file: "arg_spk_file ?a = Some 0" by simp
  show ?thesis
    using speaker_file_failure[of ex_env "[]" 0 "str_lit ''no such file''" 0 ?a
        "tts_handler ex_env (?a\<lparr>arg_spk_file := None\<rparr>) (PInt 20) (- 1) (PObj 1)"]
      f run has_file
    by (simp add: str_lit_def)
qed

section \<open>The text handed to the handler\<close>

text \<open>
  C10. With \<open>webui_config.tts_max\<close> a positive number of characters: the text of the
  handler is the first \<open>tts_max\<close> characters of the stripped input; the error
  \<open>Text is empty\<close> is returned exactly when the stripped input is empty; and a text of
  any length is accepted where another text is: when a request is accepted, the same
  request with any other text that is not empty after \<open>strip\<close> is accepted too, with
  the same handler but for the text, cut in the same way.
\<close>

theorem text_is_truncated:
  assumes "0 < tts_max env"
  shows "(tts_generate env a = Inr h \<longrightarrow> text_content h = take (nat (tts_max env)) (strip (arg_text a)))
   \<and> (tts_generate env a = Inl (GrError ''Text is empty, please input some text'')
        \<longleftrightarrow> strip (arg_text a) = [])
   \<and> (tts_generate env a = Inr h \<and> strip t \<noteq> [] \<longrightarrow>
        tts_generate env (a\<lparr>arg_text := t\<rparr>)
          = Inr (h\<lparr>text_content := take (nat (tts_max env)) (strip t)\<rparr>))"
proof (intro conjI impI)
  assume "tts_generate env a = Inr h"
  then show "text_content h = take (nat (tts_max env)) (strip (arg_text a))"
    using assms by (auto simp: tts_generate_Inr_iff tts_handler_def tts_text_def slice_pos)
next
  show "tts_generate env a = Inl (GrError ''Text is empty, please input some text'')
          \<longleftrightarrow> strip (arg_text a) = []"
    using assms by (simp add: tts_generate_text_error tts_text_def slice_pos)
next
  assume a: "tts_generate env a = Inr h \<and> strip t \<noteq> []"
  have cut: "tts_text env (a\<lparr>arg_text := t\<rparr>) = take (nat (tts_max env)) (strip t)"
    using assms by (simp add: tts_text_def slice_pos)
  have ne: "tts_text env (a\<lparr>arg_text := t\<rparr>) \<noteq> []"
    using a assms by (simp add: cut)
  from a obtain top_k seed spk2 spk3 where st:
    "top_k_int (arg_top_k a) = Inr top_k"
    "clip_seed (eff_infer_seed env a) = Inr seed"
    "load_spk_file env (arg_spk_file a) (speaker_from_seed env (eff_spk env a)) = Inr spk2"
    "ref_audio_spk env (arg_ref_audio a) (arg_ref_audio_text a) spk2 = Inr spk3"
    "h = tts_handler env a top_k seed spk3"
    by (auto simp: tts_generate_Inr_iff)
  show "tts_generate env (a\<lparr>arg_text := t\<rparr>)
          = Inr (h\<lparr>text_content := take (nat (tts_max env)) (strip t)\<rparr>)"
    using ne st by (simp add: tts_generate_def eff_text tts_handler_text cut)
qed

text \<open>
  The theorem at the example, where \<open>tts_max\<close> is 5: of \<open>hello world\<close> between blanks
  the handler gets \<open>hello\<close>, and a text of blanks is refused.
\<close>

theorem text_is_truncated_witness:
  "0 < tts_max ex_env
   \<and> map_sum id text_content (tts_generate ex_env ex_args) = Inr (str_lit ''hello'')
   \<and> tts_generate ex_env (ex_args\<lparr>arg_text := str_lit ''   ''\<rparr>)
       = Inl (GrError ''Text is empty, please input some text'')"
proof -
  have pos: "0 < tts_max ex_env" by (simp add: ex_env_def)
  have vals: "take (nat (tts_max ex_env)) (strip (arg_text ex_args)) = str_lit ''hello''"
    "strip (arg_text (ex_args\<lparr>arg_text := str_lit ''   ''\<rparr>)) = []"
    by (simp_all add: ex_defs)
  show ?thesis
    using text_is_truncated[OF pos, of ex_args "tts_handler ex_env ex_args (PInt 20) (- 1) (PObj 1)"]
      text_is_truncated[OF pos, of "ex_args\<lparr>arg_text := str_lit ''   ''\<rparr>"]
      pos vals ex_args_run
    by simp
qed

end
